theory Spec2Isabelle
  imports Main "HOL-Library.Char_ord" "HOL-Library.List_Lexorder"
begin

section \<open>API types of the Instance controller\<close>

text \<open>
  The controller of \<^verbatim>\<open>pkg/controller/controller_instance.go\<close> reconciles Instance
  objects against a service broker. The types below are the fields of the
  \<^verbatim>\<open>v1alpha1\<close> and \<^verbatim>\<open>brokerapi\<close> structs that the file reads or writes.
  A Go pointer that may be nil is an option; \<^verbatim>\<open>metav1.Time\<close> is a point on a linear
  time axis, here a natural number.
\<close>

type_synonym time = nat

datatype error = Error string

datatype ConditionStatus = ConditionTrue | ConditionFalse | ConditionUnknown

text \<open>
  \<^verbatim>\<open>v1alpha1.InstanceCondition\<close>. Its \<^verbatim>\<open>Status\<close> field is \<open>CondStatus\<close> here, since
  the Instance has a \<^verbatim>\<open>Status\<close> field of its own.
\<close>

record InstanceCondition =
  Type :: string
  CondStatus :: ConditionStatus
  LastTransitionTime :: time
  Reason :: string
  Message :: string

record InstanceSpec =
  ServiceClassName :: string
  PlanName :: string
  ExternalID :: string
  Parameters :: "string option"

record InstanceStatus =
  Conditions :: "InstanceCondition list"
  AsyncOpInProgress :: bool
  LastOperation :: "string option"
  DashboardURL :: "string option"
  Checksum :: "string option"

record Instance =
  Namespace :: string
  Name :: string
  DeletionTimestamp :: "time option"
  Finalizers :: "string list"
  Spec :: InstanceSpec
  Status :: InstanceStatus

record ServiceClass =
  ClassName :: string
  ClassExternalID :: string

record ServicePlan =
  PlanExternalID :: string

record ContextProfile =
  Platform :: string
  ContextNamespace :: string

record 'p CreateServiceInstanceRequest =
  CreateServiceID :: string
  CreatePlanID :: string
  CreateParameters :: "'p option"
  OrgID :: string
  SpaceID :: string
  CreateAcceptsIncomplete :: bool
  CreateContextProfile :: "ContextProfile option"

record CreateServiceInstanceResponse =
  RespDashboardURL :: string
  CreateOperation :: string

record DeleteServiceInstanceRequest =
  DeleteServiceID :: string
  DeletePlanID :: string
  DeleteAcceptsIncomplete :: bool

record DeleteServiceInstanceResponse =
  DeleteOperation :: string

record LastOperationRequest =
  PollServiceID :: string
  PollPlanID :: string
  PollOperation :: string

record LastOperationResponse =
  State :: string
  Description :: string

datatype EventType = EventTypeNormal | EventTypeWarning

text \<open>Arguments of a \<^verbatim>\<open>fmt.Sprintf\<close> or \<^verbatim>\<open>fmt.Errorf\<close> call.\<close>

datatype fmtarg = FmtS string | FmtD int | FmtE error | FmtP "string option" | FmtV Instance

text \<open>\<^verbatim>\<open>net/http\<close> status codes.\<close>

definition StatusOK :: int where "StatusOK = 200"
definition StatusAccepted :: int where "StatusAccepted = 202"
definition StatusGone :: int where "StatusGone = 410"

section \<open>Collaborators and effects\<close>

text \<open>
  Every call the controller makes on a collaborator (broker client, API client,
  event recorder, polling queue) is appended to a trace together with its answer.
  The answer is a function of the state of the outside world \<open>'w\<close>, which the call
  may change. \<open>'p\<close> is the type of unmarshalled parameters
  (\<^verbatim>\<open>map[string]interface{}\<close>). The broker calls carry the broker's name, the
  instance's external ID and the request; the answer of a broker call is the
  response, the HTTP status and the error.
\<close>

datatype 'p call =
    CallCreateServiceInstance string string "'p CreateServiceInstanceRequest"
      "CreateServiceInstanceResponse \<times> int \<times> error option"
  | CallDeleteServiceInstance string string DeleteServiceInstanceRequest
      "DeleteServiceInstanceResponse \<times> int \<times> error option"
  | CallPollServiceInstance string string LastOperationRequest
      "LastOperationResponse \<times> int \<times> error option"
  | CallUpdateStatus string Instance "error option"
  | CallGetInstance string string "Instance \<times> error option"
  | CallGetNamespace string "error + string"
  | CallEvent EventType string string
  | CallPollingQueueAdd string

text \<open>
  The constants that \<^verbatim>\<open>controller_instance.go\<close> uses and that are declared in
  other files of the package (reasons and messages of conditions) or in
  \<^verbatim>\<open>v1alpha1\<close> (the finalizer token, the Ready condition type). Their values are
  parameters of the model.
\<close>

record constants =
  FinalizerServiceCatalog :: string
  InstanceConditionReady :: string
  errorWithParameters :: string
  errorFindingNamespaceInstanceReason :: string
  errorProvisionCalledReason :: string
  errorDeprovisionCalledReason :: string
  asyncProvisioningReason :: string
  asyncProvisioningMessage :: string
  asyncDeprovisioningReason :: string
  asyncDeprovisioningMessage :: string
  successProvisionReason :: string
  successProvisionMessage :: string
  successDeprovisionReason :: string
  successDeprovisionMessage :: string
  ContextProfilePlatformKubernetes :: string

text \<open>
  The controller: its constants, its flag, the functions of the repository that
  \<^verbatim>\<open>controller_instance.go\<close> calls and that live in other files
  (\<^verbatim>\<open>getServiceClassPlanAndBroker\<close>, \<^verbatim>\<open>unmarshalParameters\<close>,
  \<^verbatim>\<open>checksum.InstanceSpecChecksum\<close>), and the answers of its collaborators.
  \<^verbatim>\<open>getServiceClassPlanAndBroker\<close> returns the broker's name in place of the
  broker client: the broker calls below take that name. What that function does
  to the outside world stays inside \<open>'w\<close>; the trace holds the calls issued by
  the functions of this file.
\<close>

record ('w, 'p) controller =
  names :: constants
  enableOSBAPIContextProfle :: bool
  Sprintf :: "string \<Rightarrow> fmtarg list \<Rightarrow> string"
  InstanceSpecChecksum :: "InstanceSpec \<Rightarrow> string"
  unmarshalParameters :: "string \<Rightarrow> error + 'p"
  getServiceClassPlanAndBroker ::
    "Instance \<Rightarrow> 'w \<Rightarrow> (error + ServiceClass \<times> ServicePlan \<times> string) \<times> 'w"
  Now :: "'w \<Rightarrow> time"
  brokerCreate :: "string \<Rightarrow> string \<Rightarrow> 'p CreateServiceInstanceRequest \<Rightarrow> 'w
    \<Rightarrow> (CreateServiceInstanceResponse \<times> int \<times> error option) \<times> 'w"
  brokerDelete :: "string \<Rightarrow> string \<Rightarrow> DeleteServiceInstanceRequest \<Rightarrow> 'w
    \<Rightarrow> (DeleteServiceInstanceResponse \<times> int \<times> error option) \<times> 'w"
  brokerPoll :: "string \<Rightarrow> string \<Rightarrow> LastOperationRequest \<Rightarrow> 'w
    \<Rightarrow> (LastOperationResponse \<times> int \<times> error option) \<times> 'w"
  storeUpdateStatus :: "string \<Rightarrow> Instance \<Rightarrow> 'w \<Rightarrow> error option \<times> 'w"
  storeGet :: "string \<Rightarrow> string \<Rightarrow> 'w \<Rightarrow> (Instance \<times> error option) \<times> 'w"
  namespaceGet :: "string \<Rightarrow> 'w \<Rightarrow> (error + string) \<times> 'w"

record ('w, 'p) state =
  world :: 'w
  trace :: "'p call list"

definition emit :: "'p call \<Rightarrow> ('w, 'p) state \<Rightarrow> ('w, 'p) state" where
  "emit e s = s\<lparr>trace := trace s @ [e]\<rparr>"

definition perform ::
  "('a \<Rightarrow> 'p call) \<Rightarrow> ('w \<Rightarrow> 'a \<times> 'w) \<Rightarrow> ('w, 'p) state \<Rightarrow> 'a \<times> ('w, 'p) state" where
  "perform e f s =
     (case f (world s) of (r, w) \<Rightarrow> (r, s\<lparr>world := w, trace := trace s @ [e r]\<rparr>))"

text \<open>\<^verbatim>\<open>brokerClient.CreateServiceInstance\<close>, \<^verbatim>\<open>DeleteServiceInstance\<close>, \<^verbatim>\<open>PollServiceInstance\<close>.\<close>

definition CreateServiceInstance ::
  "('w, 'p) controller \<Rightarrow> string \<Rightarrow> string \<Rightarrow> 'p CreateServiceInstanceRequest \<Rightarrow> ('w, 'p) state
   \<Rightarrow> (CreateServiceInstanceResponse \<times> int \<times> error option) \<times> ('w, 'p) state" where
  "CreateServiceInstance c broker ident req =
     perform (CallCreateServiceInstance broker ident req) (brokerCreate c broker ident req)"

definition DeleteServiceInstance ::
  "('w, 'p) controller \<Rightarrow> string \<Rightarrow> string \<Rightarrow> DeleteServiceInstanceRequest \<Rightarrow> ('w, 'p) state
   \<Rightarrow> (DeleteServiceInstanceResponse \<times> int \<times> error option) \<times> ('w, 'p) state" where
  "DeleteServiceInstance c broker ident req =
     perform (CallDeleteServiceInstance broker ident req) (brokerDelete c broker ident req)"

definition PollServiceInstance ::
  "('w, 'p) controller \<Rightarrow> string \<Rightarrow> string \<Rightarrow> LastOperationRequest \<Rightarrow> ('w, 'p) state
   \<Rightarrow> (LastOperationResponse \<times> int \<times> error option) \<times> ('w, 'p) state" where
  "PollServiceInstance c broker ident req =
     perform (CallPollServiceInstance broker ident req) (brokerPoll c broker ident req)"

text \<open>\<^verbatim>\<open>c.serviceCatalogClient.Instances(ns).UpdateStatus\<close> and \<^verbatim>\<open>.Get\<close>.\<close>

definition UpdateStatus ::
  "('w, 'p) controller \<Rightarrow> string \<Rightarrow> Instance \<Rightarrow> ('w, 'p) state \<Rightarrow> error option \<times> ('w, 'p) state" where
  "UpdateStatus c ns obj = perform (CallUpdateStatus ns obj) (storeUpdateStatus c ns obj)"

definition GetInstance ::
  "('w, 'p) controller \<Rightarrow> string \<Rightarrow> string \<Rightarrow> ('w, 'p) state
   \<Rightarrow> (Instance \<times> error option) \<times> ('w, 'p) state" where
  "GetInstance c ns name = perform (CallGetInstance ns name) (storeGet c ns name)"

text \<open>\<^verbatim>\<open>c.kubeClient.Core().Namespaces().Get\<close>: the namespace's UID, or an error.\<close>

definition GetNamespace ::
  "('w, 'p) controller \<Rightarrow> string \<Rightarrow> ('w, 'p) state \<Rightarrow> (error + string) \<times> ('w, 'p) state" where
  "GetNamespace c ns = perform (CallGetNamespace ns) (namespaceGet c ns)"

text \<open>\<^verbatim>\<open>c.recorder.Event\<close> / \<^verbatim>\<open>Eventf\<close> and \<^verbatim>\<open>c.pollingQueue.Add\<close> return nothing.\<close>

definition Event :: "EventType \<Rightarrow> string \<Rightarrow> string \<Rightarrow> ('w, 'p) state \<Rightarrow> ('w, 'p) state" where
  "Event ty reason msg = emit (CallEvent ty reason msg)"

definition pollingQueueAdd :: "string \<Rightarrow> ('w, 'p) state \<Rightarrow> ('w, 'p) state" where
  "pollingQueueAdd key = emit (CallPollingQueueAdd key)"

text \<open>
  \<^verbatim>\<open>api.Scheme.DeepCopy\<close> returns a value equal to its argument; its error return
  is for types the cloner does not know, which Instance is not. The model keeps
  the result type, so that the caller's error branch is written out.
\<close>

definition DeepCopy :: "Instance \<Rightarrow> error + Instance" where
  "DeepCopy obj = Inr obj"

text \<open>
  \<^verbatim>\<open>cache.DeletionHandlingMetaNamespaceKeyFunc\<close> on an Instance: the key
  \<^verbatim>\<open>namespace/name\<close>, or the name alone when the namespace is empty. It fails
  only on objects without metadata.
\<close>

definition DeletionHandlingMetaNamespaceKeyFunc :: "Instance \<Rightarrow> error + string" where
  "DeletionHandlingMetaNamespaceKeyFunc obj =
     Inr (if Namespace obj \<noteq> [] then Namespace obj @ ''/'' @ Name obj else Name obj)"

text \<open>
  \<^verbatim>\<open>sets.NewString(xs...)\<close> is the set of the elements of \<open>xs\<close>; \<^verbatim>\<open>Has\<close> is
  membership, \<^verbatim>\<open>Delete\<close> removes an element, and \<^verbatim>\<open>List\<close> returns the elements
  sorted (bytewise lexicographic order, as \<^verbatim>\<open>sort.Strings\<close>).
\<close>

definition sets_List :: "string set \<Rightarrow> string list" where
  "sets_List S = sorted_list_of_set S"

section \<open>updateInstanceCondition\<close>

text \<open>
  The loop of \<^verbatim>\<open>updateInstanceCondition\<close> over \<^verbatim>\<open>instance.Status.Conditions\<close>:
  \<open>i\<close> is the index of the head of the list still to visit, \<open>out\<close> is
  \<^verbatim>\<open>toUpdate.Status.Conditions\<close>. At the first condition of the given type the
  new condition gets its transition time and is stored at index \<open>i\<close>, and the
  loop ends.
\<close>

fun updateLoop ::
  "InstanceCondition list \<Rightarrow> nat \<Rightarrow> InstanceCondition \<Rightarrow> time \<Rightarrow> InstanceCondition list
   \<Rightarrow> InstanceCondition list" where
  "updateLoop [] i newCondition t out = out"
| "updateLoop (cond # rest) i newCondition t out =
     (if Type cond = Type newCondition then
        out[i := (if CondStatus cond \<noteq> CondStatus newCondition
                  then newCondition\<lparr>LastTransitionTime := t\<rparr>
                  else newCondition\<lparr>LastTransitionTime := LastTransitionTime cond\<rparr>)]
      else updateLoop rest (Suc i) newCondition t out)"

text \<open>
  The object that \<^verbatim>\<open>updateInstanceCondition\<close> builds from \<open>instance\<close> and its clone
  \<open>toUpdate\<close> at time \<open>t\<close> (lines 495 to 522). The zero value of the new
  condition's transition time is 0.
\<close>

definition conditionUpdate ::
  "Instance \<Rightarrow> Instance \<Rightarrow> string \<Rightarrow> ConditionStatus \<Rightarrow> string \<Rightarrow> string \<Rightarrow> time \<Rightarrow> Instance" where
  "conditionUpdate instance toUpdate conditionType status reason message t =
     (let newCondition = \<lparr>Type = conditionType, CondStatus = status, LastTransitionTime = 0,
                           Reason = reason, Message = message\<rparr>
      in if length (Conditions (Status instance)) = 0 then
           toUpdate\<lparr>Status := (Status toUpdate)
             \<lparr>Conditions := [newCondition\<lparr>LastTransitionTime := t\<rparr>]\<rparr>\<rparr>
         else
           toUpdate\<lparr>Status := (Status toUpdate)
             \<lparr>Conditions := updateLoop (Conditions (Status instance)) 0 newCondition t
                               (Conditions (Status toUpdate))\<rparr>\<rparr>)"

definition updateInstanceCondition ::
  "('w, 'p) controller \<Rightarrow> Instance \<Rightarrow> string \<Rightarrow> ConditionStatus \<Rightarrow> string \<Rightarrow> string
   \<Rightarrow> ('w, 'p) state \<Rightarrow> error option \<times> ('w, 'p) state" where
  "updateInstanceCondition c instance conditionType status reason message s =
     (case DeepCopy instance of
        Inl err \<Rightarrow> (Some err, s)
      | Inr toUpdate \<Rightarrow>
          let t = Now c (world s);
              toUpdate' = conditionUpdate instance toUpdate conditionType status reason message t
          in UpdateStatus c (Namespace instance) toUpdate' s)"

section \<open>updateInstanceFinalizers\<close>

text \<open>
  The parameter \<open>instance\<close> is shadowed by the object read from the store; the
  error of that read is logged and otherwise ignored.
\<close>

definition updateInstanceFinalizers ::
  "('w, 'p) controller \<Rightarrow> Instance \<Rightarrow> string list \<Rightarrow> ('w, 'p) state
   \<Rightarrow> error option \<times> ('w, 'p) state" where
  "updateInstanceFinalizers c instance0 finalizers s =
     (case GetInstance c (Namespace instance0) (Name instance0) s of
        ((instance, _), s1) \<Rightarrow>
          (case DeepCopy instance of
             Inl err \<Rightarrow> (Some err, s1)
           | Inr toUpdate \<Rightarrow>
               UpdateStatus c (Namespace instance) (toUpdate\<lparr>Finalizers := finalizers\<rparr>) s1))"

section \<open>Helpers of the handlers\<close>

text \<open>
  The call of \<^verbatim>\<open>c.getServiceClassPlanAndBroker\<close>, whose body is in another file
  of the package.
\<close>

definition resolveServiceClassPlanAndBroker ::
  "('w, 'p) controller \<Rightarrow> Instance \<Rightarrow> ('w, 'p) state
   \<Rightarrow> (error + ServiceClass \<times> ServicePlan \<times> string) \<times> ('w, 'p) state" where
  "resolveServiceClassPlanAndBroker c instance s =
     (case getServiceClassPlanAndBroker c instance (world s) of (r, w) \<Rightarrow> (r, s\<lparr>world := w\<rparr>))"

section \<open>Format strings and message prefixes\<close>

text \<open>
  The string literals of the handlers, in the order of the file. \<open>dq\<close> is the
  double quote and \<open>nl\<close> the newline of a Go literal.
\<close>

definition dq :: string where "dq = [CHR 0x22]"
definition nl :: string where "nl = [CHR 0x0A]"

definition fmtDeprovisionError :: string where
  "fmtDeprovisionError =
     ''Error deprovisioning Instance '' @ dq @ ''%s/%s'' @ dq
       @ '' of ServiceClass %q at Broker %q with status code %d: %s''"

definition prefixDeprovisionCallFailed :: string where
  "prefixDeprovisionCallFailed = ''Deprovision call failed. ''"

definition fmtDeprovisionCallFailed :: string where
  "fmtDeprovisionCallFailed = ''deprovision call failed''"

definition fmtUnmarshalError :: string where
  "fmtUnmarshalError = ''Failed to unmarshal Instance parameters'' @ nl @ ''%s'' @ nl @ '' %s''"

definition prefixUnmarshalError :: string where
  "prefixUnmarshalError = ''Error unmarshaling instance parameters. ''"

definition fmtNamespaceError :: string where
  "fmtNamespaceError = ''Failed to get namespace %q during instance create: %s''"

definition prefixNamespaceError :: string where
  "prefixNamespaceError = ''Error finding namespace for instance. ''"

definition fmtProvisionError :: string where
  "fmtProvisionError =
     ''Error provisioning Instance '' @ dq @ ''%s/%s'' @ dq
       @ '' of ServiceClass %q at Broker %q: %s''"

definition prefixProvisionCallFailed :: string where
  "prefixProvisionCallFailed = ''Provision call failed. ''"

definition fmtKeyError :: string where
  "fmtKeyError = ''Couldn't create a key for object %+v: %v''"

definition fmtNotCompleted :: string where
  "fmtNotCompleted = ''last operation not completed (still in progress) for %v/%v''"

definition fmtPollFailed :: string where
  "fmtPollFailed =
     ''Error deprovisioning Instance '' @ dq @ ''%s/%s'' @ dq
       @ '' of ServiceClass %q at Broker %q: %q''"

definition prefixProvisionFailed :: string where
  "prefixProvisionFailed = ''Provision call failed: ''"

definition prefixDeprovisionFailed :: string where
  "prefixDeprovisionFailed = ''Deprovision call failed:''"

definition fmtInvalidState :: string where
  "fmtInvalidState = ''Got invalid state in LastOperationResponse: %q''"

definition setAsyncOpInProgress :: "bool \<Rightarrow> Instance \<Rightarrow> Instance" where
  "setAsyncOpInProgress b instance = instance\<lparr>Status := (Status instance)\<lparr>AsyncOpInProgress := b\<rparr>\<rparr>"

definition setLastOperation :: "string \<Rightarrow> Instance \<Rightarrow> Instance" where
  "setLastOperation op instance = instance\<lparr>Status := (Status instance)\<lparr>LastOperation := Some op\<rparr>\<rparr>"

definition setDashboardURL :: "string \<Rightarrow> Instance \<Rightarrow> Instance" where
  "setDashboardURL url instance = instance\<lparr>Status := (Status instance)\<lparr>DashboardURL := Some url\<rparr>\<rparr>"

section \<open>pollInstance\<close>

text \<open>
  A handler returns its error (\<open>None\<close> is Go's nil), the Instance as the
  handler has mutated it through its pointer, and the state.
\<close>

text \<open>The request that \<^verbatim>\<open>pollInstance\<close> builds (lines 373 to 379).\<close>

definition lastOperationRequest :: "ServiceClass \<Rightarrow> ServicePlan \<Rightarrow> Instance \<Rightarrow> LastOperationRequest" where
  "lastOperationRequest serviceClass servicePlan instance =
     \<lparr>PollServiceID = ClassExternalID serviceClass,
      PollPlanID = PlanExternalID servicePlan,
      PollOperation = (case LastOperation (Status instance) of
                         None \<Rightarrow> []
                       | Some operation \<Rightarrow> if operation \<noteq> [] then operation else [])\<rparr>"

text \<open>The request that \<^verbatim>\<open>reconcileInstanceDelete\<close> builds (lines 108 to 112).\<close>

definition deleteRequest :: "ServiceClass \<Rightarrow> ServicePlan \<Rightarrow> DeleteServiceInstanceRequest" where
  "deleteRequest serviceClass servicePlan =
     \<lparr>DeleteServiceID = ClassExternalID serviceClass,
      DeletePlanID = PlanExternalID servicePlan,
      DeleteAcceptsIncomplete = True\<rparr>"

definition pollInstance ::
  "('w, 'p) controller \<Rightarrow> ServiceClass \<Rightarrow> ServicePlan \<Rightarrow> string \<Rightarrow> Instance \<Rightarrow> ('w, 'p) state
   \<Rightarrow> error option \<times> Instance \<times> ('w, 'p) state" where
  "pollInstance c serviceClass servicePlan brokerName instance s =
     (let deleting = (DeletionTimestamp instance \<noteq> None)
      in case PollServiceInstance c brokerName (ExternalID (Spec instance))
                (lastOperationRequest serviceClass servicePlan instance) s of
           ((resp, rc, Some err), s1) \<Rightarrow> (Some err, instance, s1)
         | ((resp, rc, None), s1) \<Rightarrow>
             if rc = StatusGone \<and> deleting then
               let instance1 = setAsyncOpInProgress False instance;
                   finalizers = set (Finalizers instance1);
                   s2 = (if FinalizerServiceCatalog (names c) \<in> finalizers
                         then snd (updateInstanceFinalizers c instance1
                                (sets_List (finalizers - {FinalizerServiceCatalog (names c)})) s1)
                         else s1);
                   s3 = snd (updateInstanceCondition c instance1
                          (InstanceConditionReady (names c)) ConditionFalse
                          (successDeprovisionReason (names c))
                          (successDeprovisionMessage (names c)) s2)
               in (None, instance1,
                   Event EventTypeNormal (successDeprovisionReason (names c))
                     (successDeprovisionMessage (names c)) s3)
             else if State resp = ''in progress'' then
               (Some (Error (Sprintf c fmtNotCompleted
                  [FmtS (Namespace instance), FmtS (Name instance)])), instance, s1)
             else if State resp = ''succeeded'' then
               let instance1 = setAsyncOpInProgress False instance in
               if deleting then
                 let s2 = snd (updateInstanceCondition c instance1
                            (InstanceConditionReady (names c)) ConditionFalse
                            (successDeprovisionReason (names c))
                            (successDeprovisionMessage (names c)) s1);
                     finalizers = set (Finalizers instance1);
                     s3 = (if FinalizerServiceCatalog (names c) \<in> finalizers
                           then snd (updateInstanceFinalizers c instance1
                                  (sets_List (finalizers - {FinalizerServiceCatalog (names c)})) s2)
                           else s2)
                 in (None, instance1,
                     Event EventTypeNormal (successDeprovisionReason (names c))
                       (successDeprovisionMessage (names c)) s3)
               else
                 (None, instance1,
                  snd (updateInstanceCondition c instance1
                         (InstanceConditionReady (names c)) ConditionTrue
                         (successProvisionReason (names c))
                         (successProvisionMessage (names c)) s1))
             else if State resp = ''failed'' then
               let msg0 = Sprintf c fmtPollFailed
                     [FmtS (Namespace instance), FmtS (Name instance),
                      FmtS (ClassName serviceClass), FmtS brokerName, FmtS (Description resp)];
                   instance1 = setAsyncOpInProgress False instance;
                   cond = (if deleting then ConditionUnknown else ConditionFalse);
                   reason = (if deleting then errorDeprovisionCalledReason (names c)
                             else errorProvisionCalledReason (names c));
                   msg = (if deleting then prefixDeprovisionFailed @ msg0
                          else prefixProvisionFailed @ msg0);
                   s2 = snd (updateInstanceCondition c instance1
                          (InstanceConditionReady (names c)) cond reason msg s1)
               in (None, instance1,
                   Event EventTypeWarning (errorDeprovisionCalledReason (names c)) msg0 s2)
             else
               (Some (Error (Sprintf c fmtInvalidState
                  [FmtS (State resp)])), instance, s1))"

definition pollInstanceInternal ::
  "('w, 'p) controller \<Rightarrow> Instance \<Rightarrow> ('w, 'p) state
   \<Rightarrow> error option \<times> Instance \<times> ('w, 'p) state" where
  "pollInstanceInternal c instance s =
     (case resolveServiceClassPlanAndBroker c instance s of
        (Inl err, s1) \<Rightarrow> (Some err, instance, s1)
      | (Inr (serviceClass, servicePlan, brokerName), s1) \<Rightarrow>
          pollInstance c serviceClass servicePlan brokerName instance s1)"

section \<open>reconcileInstanceDelete\<close>

definition reconcileInstanceDelete ::
  "('w, 'p) controller \<Rightarrow> Instance \<Rightarrow> ('w, 'p) state
   \<Rightarrow> error option \<times> Instance \<times> ('w, 'p) state" where
  "reconcileInstanceDelete c instance s =
     (if DeletionTimestamp instance = None then (None, instance, s)
      else
        let finalizerToken = FinalizerServiceCatalog (names c);
            finalizers = set (Finalizers instance)
        in if finalizerToken \<notin> finalizers then (None, instance, s)
        else if \<not> AsyncOpInProgress (Status instance) \<and> Checksum (Status instance) = None then
          (case updateInstanceFinalizers c instance (sets_List (finalizers - {finalizerToken})) s of
             (err, s1) \<Rightarrow> (err, instance, s1))
        else
          case resolveServiceClassPlanAndBroker c instance s of
            (Inl err, s1) \<Rightarrow> (Some err, instance, s1)
          | (Inr (serviceClass, servicePlan, brokerName), s1) \<Rightarrow>
              let request = deleteRequest serviceClass servicePlan
              in (case DeleteServiceInstance c brokerName (ExternalID (Spec instance)) request s1 of
                ((response, respCode, Some err), s2) \<Rightarrow>
                  let msg = Sprintf c fmtDeprovisionError
                        [FmtS (Namespace instance), FmtS (Name instance),
                         FmtS (ClassName serviceClass), FmtS brokerName, FmtD respCode, FmtE err];
                      s3 = snd (updateInstanceCondition c instance
                             (InstanceConditionReady (names c)) ConditionUnknown
                             (errorDeprovisionCalledReason (names c))
                             (prefixDeprovisionCallFailed @ msg) s2)
                  in (Some err, instance,
                      Event EventTypeWarning (errorDeprovisionCalledReason (names c)) msg s3)
              | ((response, respCode, None), s2) \<Rightarrow>
                  if respCode = StatusAccepted then
                    let instance1 = (if DeleteOperation response \<noteq> []
                                     then setLastOperation (DeleteOperation response) instance
                                     else instance);
                        instance2 = setAsyncOpInProgress True instance1
                    in (case updateInstanceCondition c instance2
                               (InstanceConditionReady (names c)) ConditionFalse
                               (asyncDeprovisioningReason (names c))
                               (asyncDeprovisioningMessage (names c)) s2 of
                          (Some err, s3) \<Rightarrow> (Some err, instance2, s3)
                        | (None, s3) \<Rightarrow> (None, instance2, s3))
                  else if respCode = StatusOK then
                    (case updateInstanceCondition c instance
                            (InstanceConditionReady (names c)) ConditionFalse
                            (successDeprovisionReason (names c))
                            (successDeprovisionMessage (names c)) s2 of
                       (Some err, s3) \<Rightarrow> (Some err, instance, s3)
                     | (None, s3) \<Rightarrow>
                         (case updateInstanceFinalizers c instance
                                 (sets_List (finalizers - {finalizerToken})) s3 of
                            (Some err, s4) \<Rightarrow> (Some err, instance, s4)
                          | (None, s4) \<Rightarrow>
                              (None, instance,
                               Event EventTypeNormal (successDeprovisionReason (names c))
                                 (successDeprovisionMessage (names c)) s4)))
                  else
                    let errorDeprovisionCalledMessage = Sprintf c fmtDeprovisionCallFailed []
                    in (case updateInstanceCondition c instance
                               (InstanceConditionReady (names c)) ConditionFalse
                               (errorDeprovisionCalledReason (names c))
                               errorDeprovisionCalledMessage s2 of
                          (Some err, s3) \<Rightarrow> (Some err, instance, s3)
                        | (None, s3) \<Rightarrow>
                            (None, instance,
                             Event EventTypeWarning (errorDeprovisionCalledReason (names c))
                               (Sprintf c errorDeprovisionCalledMessage []) s3))))"

section \<open>reconcileInstance\<close>

text \<open>
  The tail of \<^verbatim>\<open>reconcileInstance\<close> (from "Adding/Updating Instance", line 237, to
  the end): parameters, namespace, the broker's create call and its outcomes.
\<close>

definition provisionInstance ::
  "('w, 'p) controller \<Rightarrow> ServiceClass \<Rightarrow> ServicePlan \<Rightarrow> string \<Rightarrow> Instance \<Rightarrow> ('w, 'p) state
   \<Rightarrow> error option \<times> Instance \<times> ('w, 'p) state" where
  "provisionInstance c serviceClass servicePlan brokerName instance s1 =
     (case (case Parameters (Spec instance) of
              None \<Rightarrow> Inr None
            | Some raw \<Rightarrow> (case unmarshalParameters c raw of
                             Inl err \<Rightarrow> Inl err
                           | Inr ps \<Rightarrow> Inr (Some ps))) of
        Inl err \<Rightarrow>
          let msg = Sprintf c fmtUnmarshalError
                [FmtP (Parameters (Spec instance)), FmtE err];
              s2 = snd (updateInstanceCondition c instance
                     (InstanceConditionReady (names c)) ConditionFalse
                     (errorWithParameters (names c))
                     (prefixUnmarshalError @ msg) s1)
          in (Some err, instance, Event EventTypeWarning (errorWithParameters (names c)) msg s2)
      | Inr parameters \<Rightarrow>
          (case GetNamespace c (Namespace instance) s1 of
             (Inl err, s2) \<Rightarrow>
               let msg = Sprintf c fmtNamespaceError
                     [FmtS (Namespace instance), FmtE err];
                   s3 = snd (updateInstanceCondition c instance
                          (InstanceConditionReady (names c)) ConditionFalse
                          (errorFindingNamespaceInstanceReason (names c))
                          (prefixNamespaceError @ msg) s2)
               in (Some err, instance,
                   Event EventTypeWarning (errorFindingNamespaceInstanceReason (names c)) msg s3)
           | (Inr uid, s2) \<Rightarrow>
               let request =
                     \<lparr>CreateServiceID = ClassExternalID serviceClass,
                      CreatePlanID = PlanExternalID servicePlan,
                      CreateParameters = parameters,
                      OrgID = uid,
                      SpaceID = uid,
                      CreateAcceptsIncomplete = True,
                      CreateContextProfile =
                        (if enableOSBAPIContextProfle c
                         then Some \<lparr>Platform = ContextProfilePlatformKubernetes (names c),
                                    ContextNamespace = Namespace instance\<rparr>
                         else None)\<rparr>
               in (case CreateServiceInstance c brokerName (ExternalID (Spec instance)) request s2 of
                     ((response, respCode, Some err), s3) \<Rightarrow>
                       let msg = Sprintf c fmtProvisionError
                             [FmtS (Namespace instance), FmtS (Name instance),
                              FmtS (ClassName serviceClass), FmtS brokerName, FmtE err];
                           s4 = snd (updateInstanceCondition c instance
                                  (InstanceConditionReady (names c)) ConditionFalse
                                  (errorProvisionCalledReason (names c))
                                  (prefixProvisionCallFailed @ msg) s3)
                       in (Some err, instance,
                           Event EventTypeWarning (errorProvisionCalledReason (names c)) msg s4)
                   | ((response, respCode, None), s3) \<Rightarrow>
                       let instance1 = (if RespDashboardURL response \<noteq> []
                                        then setDashboardURL (RespDashboardURL response) instance
                                        else instance)
                       in if respCode = StatusAccepted then
                            let instance2 = (if CreateOperation response \<noteq> []
                                             then setLastOperation (CreateOperation response) instance1
                                             else instance1);
                                instance3 = setAsyncOpInProgress True instance2;
                                s4 = snd (updateInstanceCondition c instance3
                                       (InstanceConditionReady (names c)) ConditionFalse
                                       (asyncProvisioningReason (names c))
                                       (asyncProvisioningMessage (names c)) s3);
                                s5 = Event EventTypeNormal (asyncProvisioningReason (names c))
                                       (Sprintf c (asyncProvisioningMessage (names c)) []) s4
                            in (case DeletionHandlingMetaNamespaceKeyFunc instance3 of
                                  Inl err \<Rightarrow>
                                    (Some (Error (Sprintf c fmtKeyError
                                       [FmtV instance3, FmtE err])), instance3, s5)
                                | Inr key \<Rightarrow> (None, instance3, pollingQueueAdd key s5))
                          else
                            let s4 = snd (updateInstanceCondition c instance1
                                       (InstanceConditionReady (names c)) ConditionTrue
                                       (successProvisionReason (names c))
                                       (successProvisionMessage (names c)) s3)
                            in (None, instance1,
                                Event EventTypeNormal (successProvisionReason (names c))
                                  (Sprintf c (successProvisionMessage (names c)) []) s4))))"

text \<open>
  \<^verbatim>\<open>reconcileInstance\<close>: the checksum gate, then the deletion path, then the
  poller when an asynchronous operation is in progress, then provisioning.
\<close>

definition reconcileInstance ::
  "('w, 'p) controller \<Rightarrow> Instance \<Rightarrow> ('w, 'p) state
   \<Rightarrow> error option \<times> Instance \<times> ('w, 'p) state" where
  "reconcileInstance c instance s =
     (if \<not> AsyncOpInProgress (Status instance)
         \<and> (case Checksum (Status instance) of
               None \<Rightarrow> False
             | Some stored \<Rightarrow> DeletionTimestamp instance = None
                               \<and> InstanceSpecChecksum c (Spec instance) = stored)
      then (None, instance, s)
      else if DeletionTimestamp instance \<noteq> None then reconcileInstanceDelete c instance s
      else
        (case resolveServiceClassPlanAndBroker c instance s of
           (Inl err, s1) \<Rightarrow> (Some err, instance, s1)
         | (Inr (serviceClass, servicePlan, brokerName), s1) \<Rightarrow>
             if AsyncOpInProgress (Status instance)
             then pollInstance c serviceClass servicePlan brokerName instance s1
             else provisionInstance c serviceClass servicePlan brokerName instance s1))"

section \<open>Observations used in the statements\<close>

text \<open>The first condition of a type in an Instance's list, if any.\<close>

definition findCondition :: "string \<Rightarrow> Instance \<Rightarrow> InstanceCondition option" where
  "findCondition ty instance = find (\<lambda>c. Type c = ty) (Conditions (Status instance))"

text \<open>
  The condition that the loop of \<^verbatim>\<open>updateInstanceCondition\<close> stores in place of
  \<open>old\<close>: the new one, with the transition time the loop gives it.
\<close>

definition stamped :: "InstanceCondition \<Rightarrow> InstanceCondition \<Rightarrow> time \<Rightarrow> InstanceCondition" where
  "stamped old new t =
     new\<lparr>LastTransitionTime := (if CondStatus old \<noteq> CondStatus new then t else LastTransitionTime old)\<rparr>"

text \<open>
  The calls a handler issued: the part of the trace behind the state it started
  from.
\<close>

definition issued :: "('w, 'p) state \<Rightarrow> ('w, 'p) state \<Rightarrow> 'p call list" where
  "issued s s' = drop (length (trace s)) (trace s')"

fun isBrokerCall :: "'p call \<Rightarrow> bool" where
  "isBrokerCall (CallCreateServiceInstance b i r a) = True"
| "isBrokerCall (CallDeleteServiceInstance b i r a) = True"
| "isBrokerCall (CallPollServiceInstance b i r a) = True"
| "isBrokerCall e = False"

text \<open>
  One \<^verbatim>\<open>updateInstanceCondition\<close> call with the clock reading \<open>now\<close> took the
  Instance \<open>before\<close> to the object \<open>after\<close> that it submitted. Where a condition of
  the type existed, the first one carries the given status, reason and message,
  with the old transition time when the status is the same and with \<open>now\<close> when it
  differs. Where the Instance had no condition at all, the object has the
  condition, stamped \<open>now\<close>.
\<close>

definition transitionStep ::
  "string \<Rightarrow> Instance \<Rightarrow> ConditionStatus \<Rightarrow> string \<Rightarrow> string \<Rightarrow> time \<Rightarrow> Instance \<Rightarrow> bool" where
  "transitionStep ty before st r m now after =
     (case findCondition ty before of
        None \<Rightarrow>
          (if Conditions (Status before) = []
           then (case findCondition ty after of
                   None \<Rightarrow> False
                 | Some new \<Rightarrow> CondStatus new = st \<and> Reason new = r \<and> Message new = m
                                \<and> LastTransitionTime new = now)
           else True)
      | Some old \<Rightarrow>
          (case findCondition ty after of
             None \<Rightarrow> False
           | Some new \<Rightarrow>
               CondStatus new = st \<and> Reason new = r \<and> Message new = m
               \<and> (if CondStatus old = st
                   then LastTransitionTime new = LastTransitionTime old
                   else LastTransitionTime new = now)))"

text \<open>
  The transition time of the condition of the type did not go back from \<open>before\<close>
  to \<open>after\<close>.
\<close>

definition notEarlierStep ::
  "string \<Rightarrow> Instance \<Rightarrow> ConditionStatus \<Rightarrow> string \<Rightarrow> string \<Rightarrow> time \<Rightarrow> Instance \<Rightarrow> bool" where
  "notEarlierStep ty before st r m now after =
     (case findCondition ty before of
        None \<Rightarrow> True
      | Some old \<Rightarrow>
          (case findCondition ty after of
             None \<Rightarrow> False
           | Some new \<Rightarrow> LastTransitionTime old \<le> LastTransitionTime new))"

text \<open>The one status write that a list of issued calls consists of.\<close>

fun submittedWrite :: "'p call list \<Rightarrow> (string \<times> Instance \<times> error option) option" where
  "submittedWrite [CallUpdateStatus ns obj a] = Some (ns, obj, a)"
| "submittedWrite xs = None"

text \<open>
  A sequence of \<^verbatim>\<open>updateInstanceCondition\<close> calls (status, reason, message) on a
  condition type, run on the controller from the state \<open>s\<close>: the first call is on
  \<open>obj\<close>, every later one on the object the call before it submitted, in the
  state that call left. Every call issues exactly one call, the status write in
  the Instance's namespace, returns the store's answer, and satisfies the step
  property \<open>P\<close> at the reading of \<^verbatim>\<open>time.Now\<close> in the state it started from.
\<close>

fun updateConditionRun ::
  "(Instance \<Rightarrow> ConditionStatus \<Rightarrow> string \<Rightarrow> string \<Rightarrow> time \<Rightarrow> Instance \<Rightarrow> bool)
   \<Rightarrow> ('w, 'p) controller \<Rightarrow> string \<Rightarrow> Instance \<Rightarrow> (ConditionStatus \<times> string \<times> string) list
   \<Rightarrow> ('w, 'p) state \<Rightarrow> bool" where
  "updateConditionRun P c ty obj [] s = True"
| "updateConditionRun P c ty obj ((st, r, m) # calls) s =
     (case updateInstanceCondition c obj ty st r m s of
        (uerr, s') \<Rightarrow>
          (case submittedWrite (issued s s') of
             None \<Rightarrow> False
           | Some (ns, written, a) \<Rightarrow>
               ns = Namespace obj \<and> a = uerr
               \<and> P obj st r m (Now c (world s)) written
               \<and> updateConditionRun P c ty written calls s'))"

text \<open>
  The clock does not go back across a status write; no transition time stored in
  the Instance is ahead of the clock.
\<close>

definition clockKeepsUp :: "('w, 'p) controller \<Rightarrow> bool" where
  "clockKeepsUp c = (\<forall>ns obj w. Now c w \<le> Now c (snd (storeUpdateStatus c ns obj w)))"

definition notAhead :: "('w, 'p) controller \<Rightarrow> Instance \<Rightarrow> ('w, 'p) state \<Rightarrow> bool" where
  "notAhead c obj s =
     list_all (\<lambda>cnd. LastTransitionTime cnd \<le> Now c (world s)) (Conditions (Status obj))"

text \<open>
  A status write whose object does not hold the finalizer token; a delete call
  answered 200 without error; a poll answered without error with HTTP status 410
  or state succeeded; a status write that the store accepted and whose object
  holds the token (the condition writes of the handlers).
\<close>

fun removesFinalizer :: "string \<Rightarrow> 'p call \<Rightarrow> bool" where
  "removesFinalizer tok (CallUpdateStatus ns obj a) = (tok \<notin> set (Finalizers obj))"
| "removesFinalizer tok e = False"




text \<open>
  An object carries a condition of the type with the status and the reason; the
  Instances on which \<^verbatim>\<open>updateInstanceCondition\<close> stores a condition of the type
  (no condition at all, or one of that type); the status and reason of the
  condition of the type that a status write submits.
\<close>

definition carriesCondition :: "Instance \<Rightarrow> string \<Rightarrow> ConditionStatus \<Rightarrow> string \<Rightarrow> bool" where
  "carriesCondition obj ty st reason =
     (case findCondition ty obj of
        None \<Rightarrow> False
      | Some cnd \<Rightarrow> CondStatus cnd = st \<and> Reason cnd = reason)"

definition upsertable :: "string \<Rightarrow> Instance \<Rightarrow> bool" where
  "upsertable ty obj = (Conditions (Status obj) = [] \<or> findCondition ty obj \<noteq> None)"

fun readyWrite :: "string \<Rightarrow> 'p call \<Rightarrow> (ConditionStatus \<times> string) option" where
  "readyWrite ty (CallUpdateStatus ns obj a) =
     map_option (\<lambda>cnd. (CondStatus cnd, Reason cnd)) (findCondition ty obj)"
| "readyWrite ty e = None"





section \<open>Concrete inputs\<close>

text \<open>Values for the constants, and an Instance to evaluate the handlers on.\<close>

definition testNames :: constants where
  "testNames =
     \<lparr>FinalizerServiceCatalog = ''kubernetes-incubator/service-catalog'',
      InstanceConditionReady = ''Ready'',
      errorWithParameters = ''ErrorWithParameters'',
      errorFindingNamespaceInstanceReason = ''ErrorFindingNamespaceForInstance'',
      errorProvisionCalledReason = ''ProvisionCallFailed'',
      errorDeprovisionCalledReason = ''DeprovisionCallFailed'',
      asyncProvisioningReason = ''Provisioning'',
      asyncProvisioningMessage = ''The instance is being provisioned asynchronously'',
      asyncDeprovisioningReason = ''Deprovisioning'',
      asyncDeprovisioningMessage = ''The instance is being deprovisioned asynchronously'',
      successProvisionReason = ''ProvisionedSuccessfully'',
      successProvisionMessage = ''The instance was provisioned successfully'',
      successDeprovisionReason = ''DeprovisionedSuccessfully'',
      successDeprovisionMessage = ''The instance was deprovisioned successfully'',
      ContextProfilePlatformKubernetes = ''kubernetes''\<rparr>"

definition testCondition :: "string \<Rightarrow> ConditionStatus \<Rightarrow> time \<Rightarrow> InstanceCondition" where
  "testCondition ty st t =
     \<lparr>Type = ty, CondStatus = st, LastTransitionTime = t, Reason = ''r0'', Message = ''m0''\<rparr>"

definition testInstance ::
  "time option \<Rightarrow> string list \<Rightarrow> InstanceCondition list \<Rightarrow> bool \<Rightarrow> string option \<Rightarrow> Instance" where
  "testInstance deletion fins conds async stored =
     \<lparr>Namespace = ''ns'', Name = ''db'', DeletionTimestamp = deletion, Finalizers = fins,
      Spec = \<lparr>ServiceClassName = ''class'', PlanName = ''plan'', ExternalID = ''id-1'',
               Parameters = None\<rparr>,
      Status = \<lparr>Conditions = conds, AsyncOpInProgress = async, LastOperation = None,
                 DashboardURL = None, Checksum = stored\<rparr>\<rparr>"

definition testClass :: ServiceClass where
  "testClass = \<lparr>ClassName = ''class'', ClassExternalID = ''class-id''\<rparr>"

definition testPlan :: ServicePlan where
  "testPlan = \<lparr>PlanExternalID = ''plan-id''\<rparr>"

definition testController ::
  "LastOperationResponse \<times> int \<times> error option
   \<Rightarrow> DeleteServiceInstanceResponse \<times> int \<times> error option
   \<Rightarrow> error option \<Rightarrow> Instance \<Rightarrow> (nat, unit) controller" where
  "testController pollAnswer deleteAnswer updateAnswer stored =
     \<lparr>names = testNames,
      enableOSBAPIContextProfle = False,
      Sprintf = (\<lambda>f args. f),
      InstanceSpecChecksum = (\<lambda>spec. ExternalID spec),
      unmarshalParameters = (\<lambda>raw. Inr ()),
      getServiceClassPlanAndBroker = (\<lambda>obj w. (Inr (testClass, testPlan, ''broker''), w)),
      Now = (\<lambda>w. w),
      brokerCreate = (\<lambda>b i r w. ((\<lparr>RespDashboardURL = [], CreateOperation = []\<rparr>, 201, None), Suc w)),
      brokerDelete = (\<lambda>b i r w. (deleteAnswer, Suc w)),
      brokerPoll = (\<lambda>b i r w. (pollAnswer, Suc w)),
      storeUpdateStatus = (\<lambda>ns obj w. (updateAnswer, Suc w)),
      storeGet = (\<lambda>ns name w. ((stored, None), Suc w)),
      namespaceGet = (\<lambda>ns w. (Inr ''uid'', Suc w))\<rparr>"

definition testState :: "(nat, unit) state" where
  "testState = \<lparr>world = 10, trace = []\<rparr>"

definition pollAnswer :: "string \<Rightarrow> int \<Rightarrow> LastOperationResponse \<times> int \<times> error option" where
  "pollAnswer st rc = (\<lparr>State = st, Description = ''d''\<rparr>, rc, None)"

definition deleteAnswer :: "int \<Rightarrow> DeleteServiceInstanceResponse \<times> int \<times> error option" where
  "deleteAnswer rc = (\<lparr>DeleteOperation = []\<rparr>, rc, None)"

definition token :: string where
  "token = FinalizerServiceCatalog testNames"

section \<open>Unfolding sets\<close>

lemmas test_defs = testController_def testInstance_def testState_def pollAnswer_def deleteAnswer_def
  testClass_def testPlan_def testNames_def token_def testCondition_def

lemmas code_defs = StatusGone_def StatusOK_def StatusAccepted_def lastOperationRequest_def
  deleteRequest_def setAsyncOpInProgress_def setLastOperation_def setDashboardURL_def

lemmas effect_defs = PollServiceInstance_def DeleteServiceInstance_def CreateServiceInstance_def
  UpdateStatus_def GetInstance_def GetNamespace_def perform_def Event_def emit_def pollingQueueAdd_def
  resolveServiceClassPlanAndBroker_def DeepCopy_def updateInstanceCondition_def
  updateInstanceFinalizers_def conditionUpdate_def sets_List_def issued_def

lemmas handler_defs = reconcileInstance_def pollInstance_def resolveServiceClassPlanAndBroker_def
  PollServiceInstance_def perform_def

section \<open>The loop of updateInstanceCondition\<close>

text \<open>
  The loop replaces the first condition of the type in place and leaves every
  other position as it was.
\<close>

lemma updateLoop_append:
  "length pre = i \<Longrightarrow>
   updateLoop xs i new t (pre @ xs) =
     pre @ (case find (\<lambda>c. Type c = Type new) xs of
              None \<Rightarrow> xs
            | Some old \<Rightarrow> takeWhile (\<lambda>c. Type c \<noteq> Type new) xs @ stamped old new t
                 # tl (dropWhile (\<lambda>c. Type c \<noteq> Type new) xs))"
proof (induction xs arbitrary: pre i)
  case Nil
  then show ?case by simp
next
  case (Cons x xs)
  show ?case
  proof (cases "Type x = Type new")
    case True
    with Cons.prems show ?thesis by (simp add: stamped_def list_update_append)
  next
    case False
    have "updateLoop xs (Suc i) new t ((pre @ [x]) @ xs) =
      (pre @ [x]) @ (case find (\<lambda>c. Type c = Type new) xs of
              None \<Rightarrow> xs
            | Some old \<Rightarrow> takeWhile (\<lambda>c. Type c \<noteq> Type new) xs @ stamped old new t
                 # tl (dropWhile (\<lambda>c. Type c \<noteq> Type new) xs))"
      by (rule Cons.IH) (simp add: Cons.prems)
    with False show ?thesis by (simp split: option.splits)
  qed
qed

lemma find_takeWhile_hit:
  "P y \<Longrightarrow> find P (takeWhile (\<lambda>c. \<not> P c) xs @ y # ys) = Some y"
  by (induction xs) auto

lemma find_updateLoop:
  "find (\<lambda>c. Type c = Type new) (updateLoop xs 0 new t xs) =
     (case find (\<lambda>c. Type c = Type new) xs of
        None \<Rightarrow> None
      | Some old \<Rightarrow> Some (stamped old new t))"
proof -
  have P: "Type (stamped old new t) = Type new" for old by (simp add: stamped_def)
  show ?thesis
    using updateLoop_append [of "[]" 0 xs new t] find_takeWhile_hit [of "\<lambda>c. Type c = Type new", OF P]
    by (auto split: option.splits)
qed

lemma findCondition_conditionUpdate:
  "findCondition ty (conditionUpdate instance instance ty st r m t) =
     (let new = \<lparr>Type = ty, CondStatus = st, LastTransitionTime = 0, Reason = r, Message = m\<rparr>
      in if Conditions (Status instance) = [] then Some (new\<lparr>LastTransitionTime := t\<rparr>)
         else case findCondition ty instance of
                None \<Rightarrow> None
              | Some old \<Rightarrow> Some (stamped old new t))"
  using find_updateLoop [of "\<lparr>Type = ty, CondStatus = st, LastTransitionTime = 0, Reason = r, Message = m\<rparr>" "Conditions (Status instance)" t]
  by (simp add: findCondition_def conditionUpdate_def Let_def)

lemma in_set_tl: "c \<in> set (tl ys) \<Longrightarrow> c \<in> set ys"
  by (cases ys) auto

lemma set_updateLoop:
  "c \<in> set (updateLoop xs 0 new t xs) \<Longrightarrow>
   c \<in> set xs \<or> (\<exists>old \<in> set xs. c = stamped old new t)"
proof -
  assume a: "c \<in> set (updateLoop xs 0 new t xs)"
  show ?thesis
  proof (cases "find (\<lambda>c. Type c = Type new) xs")
    case None
    with a updateLoop_append [of "[]" 0 xs new t] show ?thesis by simp
  next
    case (Some old)
    then have o: "old \<in> set xs" by (auto simp: find_Some_iff)
    from a Some updateLoop_append [of "[]" 0 xs new t]
    have "c \<in> set (takeWhile (\<lambda>c. Type c \<noteq> Type new) xs) \<or> c = stamped old new t
          \<or> c \<in> set (tl (dropWhile (\<lambda>c. Type c \<noteq> Type new) xs))"
      by auto
    then show ?thesis
      using o by (auto dest: set_takeWhileD in_set_tl set_dropWhileD)
  qed
qed

lemma conditionUpdate_bound:
  assumes b: "\<forall>c \<in> set (Conditions (Status instance)). LastTransitionTime c \<le> B"
    and t: "t \<le> B"
    and c: "c \<in> set (Conditions (Status (conditionUpdate instance instance ty st r m t)))"
  shows "LastTransitionTime c \<le> B"
proof (cases "Conditions (Status instance) = []")
  case True
  with c t show ?thesis by (simp add: conditionUpdate_def)
next
  case False
  with c have "c \<in> set (updateLoop (Conditions (Status instance)) 0
      \<lparr>Type = ty, CondStatus = st, LastTransitionTime = 0, Reason = r, Message = m\<rparr> t
      (Conditions (Status instance)))"
    by (simp add: conditionUpdate_def)
  from set_updateLoop [OF this] b t show ?thesis
    by (auto simp: stamped_def)
qed

lemma carriesCondition_conditionUpdate:
  "upsertable ty obj \<Longrightarrow> carriesCondition (conditionUpdate obj obj ty st r m t) ty st r"
  by (auto simp: upsertable_def carriesCondition_def findCondition_conditionUpdate stamped_def Let_def)

lemma upsertable_setAsyncOpInProgress [simp]:
  "upsertable ty (setAsyncOpInProgress b obj) = upsertable ty obj"
  by (simp add: upsertable_def setAsyncOpInProgress_def findCondition_def)

lemma conditionUpdate_frame [simp]:
  "Finalizers (conditionUpdate obj obj ty st r m t) = Finalizers obj"
  "AsyncOpInProgress (Status (conditionUpdate obj obj ty st r m t)) = AsyncOpInProgress (Status obj)"
  by (simp_all add: conditionUpdate_def Let_def)

lemma updateInstanceCondition_eq:
  "updateInstanceCondition c obj ty st r m s =
     UpdateStatus c (Namespace obj) (conditionUpdate obj obj ty st r m (Now c (world s))) s"
  by (simp add: updateInstanceCondition_def DeepCopy_def)

lemma updateInstanceCondition_run:
  "\<exists>uerr w'. updateInstanceCondition c obj ty st r m s =
     (uerr, s\<lparr>world := w', trace := trace s @
        [CallUpdateStatus (Namespace obj) (conditionUpdate obj obj ty st r m (Now c (world s))) uerr]\<rparr>)"
proof -
  obtain a b where "storeUpdateStatus c (Namespace obj)
      (conditionUpdate obj obj ty st r m (Now c (world s))) (world s) = (a, b)"
    by fastforce
  then have "updateInstanceCondition c obj ty st r m s =
     (a, s\<lparr>world := b, trace := trace s @
        [CallUpdateStatus (Namespace obj) (conditionUpdate obj obj ty st r m (Now c (world s))) a]\<rparr>)"
    by (simp add: updateInstanceCondition_eq UpdateStatus_def perform_def)
  then show ?thesis by blast
qed

lemma updateInstanceCondition_step:
  "updateInstanceCondition c obj ty st r m s =
     (fst (storeUpdateStatus c (Namespace obj)
             (conditionUpdate obj obj ty st r m (Now c (world s))) (world s)),
      s\<lparr>world := snd (storeUpdateStatus c (Namespace obj)
                        (conditionUpdate obj obj ty st r m (Now c (world s))) (world s)),
        trace := trace s @
          [CallUpdateStatus (Namespace obj) (conditionUpdate obj obj ty st r m (Now c (world s)))
             (fst (storeUpdateStatus c (Namespace obj)
                     (conditionUpdate obj obj ty st r m (Now c (world s))) (world s)))]\<rparr>)"
  by (simp add: updateInstanceCondition_eq UpdateStatus_def perform_def case_prod_beta)

lemma updateConditionRun_invariant:
  assumes step: "\<And>obj s st r m. Inv obj s \<Longrightarrow>
      P obj st r m (Now c (world s)) (conditionUpdate obj obj ty st r m (Now c (world s)))
      \<and> Inv (conditionUpdate obj obj ty st r m (Now c (world s)))
            (snd (updateInstanceCondition c obj ty st r m s))"
    and inv: "Inv obj s"
  shows "updateConditionRun P c ty obj calls s"
  using inv
proof (induction calls arbitrary: obj s)
  case Nil
  then show ?case by simp
next
  case (Cons call calls)
  obtain st r m where call: "call = (st, r, m)" by (cases call) auto
  let ?written = "conditionUpdate obj obj ty st r m (Now c (world s))"
  let ?s' = "snd (updateInstanceCondition c obj ty st r m s)"
  from step [OF Cons.prems, of st r m]
  have p: "P obj st r m (Now c (world s)) ?written" and i: "Inv ?written ?s'" by simp_all
  have "updateConditionRun P c ty ?written calls ?s'" by (rule Cons.IH [OF i])
  with p show ?case
    by (simp add: call updateInstanceCondition_step issued_def)
qed

lemma findCondition_Nil: "Conditions (Status obj) = [] \<Longrightarrow> findCondition ty obj = None"
  by (simp add: findCondition_def)

lemma transitionStep_conditionUpdate:
  "transitionStep ty obj st r m now (conditionUpdate obj obj ty st r m now)"
  by (auto simp: transitionStep_def findCondition_conditionUpdate stamped_def Let_def
      findCondition_Nil split: option.splits)

lemma notEarlierStep_conditionUpdate:
  assumes "list_all (\<lambda>cnd. LastTransitionTime cnd \<le> now) (Conditions (Status obj))"
  shows "notEarlierStep ty obj st r m now (conditionUpdate obj obj ty st r m now)"
proof (cases "findCondition ty obj")
  case None
  then show ?thesis by (simp add: notEarlierStep_def)
next
  case (Some old)
  then have "old \<in> set (Conditions (Status obj))"
    by (auto simp: findCondition_def find_Some_iff)
  with assms have le: "LastTransitionTime old \<le> now" by (simp add: list_all_iff)
  from Some have ne: "Conditions (Status obj) \<noteq> []"
    by (auto simp: findCondition_def)
  show ?thesis
    using Some ne le
    by (simp add: notEarlierStep_def findCondition_conditionUpdate stamped_def)
qed

text \<open>
  C7 (amended): for every Instance and every sequence of
  \<^verbatim>\<open>updateInstanceCondition\<close> calls on a condition type, each on the object the
  call before it submitted. A call whose status equals the existing condition's
  status submits the condition with the prior transition time (and the new reason
  and message); a call with another status submits it with the reading of
  \<^verbatim>\<open>time.Now\<close>. That reading is not compared with the stored time: the
  transition time never goes back along the sequence when the clock does not go
  back across the status writes and no transition time stored in the Instance is
  ahead of the first reading.
\<close>

theorem updateInstanceCondition_transition_time:
  "updateConditionRun (transitionStep ty) c ty inst calls s
   \<and> (clockKeepsUp c \<and> notAhead c inst s \<longrightarrow>
        updateConditionRun (notEarlierStep ty) c ty inst calls s)"
proof (intro conjI impI)
  show "updateConditionRun (transitionStep ty) c ty inst calls s"
    by (rule updateConditionRun_invariant [where Inv = "\<lambda>obj s. True"])
       (simp_all add: transitionStep_conditionUpdate)
next
  assume a: "clockKeepsUp c \<and> notAhead c inst s"
  show "updateConditionRun (notEarlierStep ty) c ty inst calls s"
  proof (rule updateConditionRun_invariant [where Inv = "notAhead c"])
    show "notAhead c inst s" using a by simp
  next
    fix obj :: Instance and s :: "('a, 'b) state" and st r m
    assume inv: "notAhead c obj s"
    let ?now = "Now c (world s)"
    let ?written = "conditionUpdate obj obj ty st r m ?now"
    let ?s' = "snd (updateInstanceCondition c obj ty st r m s)"
    have later: "?now \<le> Now c (world ?s')"
      using a by (simp add: updateInstanceCondition_step clockKeepsUp_def)
    have old: "\<forall>cnd \<in> set (Conditions (Status obj)). LastTransitionTime cnd \<le> Now c (world ?s')"
      using inv later by (fastforce simp: notAhead_def list_all_iff)
    have "\<forall>cnd \<in> set (Conditions (Status ?written)). LastTransitionTime cnd \<le> Now c (world ?s')"
      using conditionUpdate_bound [OF old later] by blast
    then have "notAhead c ?written ?s'" by (simp add: notAhead_def list_all_iff)
    moreover have "notEarlierStep ty obj st r m ?now ?written"
      using inv by (intro notEarlierStep_conditionUpdate) (simp add: notAhead_def)
    ultimately show "notEarlierStep ty obj st r m ?now ?written \<and> notAhead c ?written ?s'"
      by simp
  qed
qed

theorem updateInstanceCondition_transition_time_witness:
  "clockKeepsUp (testController (pollAnswer ''succeeded'' 200) (deleteAnswer 200) None
       (testInstance None [token] [] False None))
   \<and> notAhead (testController (pollAnswer ''succeeded'' 200) (deleteAnswer 200) None
       (testInstance None [token] [] False None))
       (testInstance None [token] [testCondition ''Ready'' ConditionTrue 2] False None) testState
   \<and> updateConditionRun (transitionStep ''Ready'')
       (testController (pollAnswer ''succeeded'' 200) (deleteAnswer 200) None
          (testInstance None [token] [] False None)) ''Ready''
       (testInstance None [token] [testCondition ''Ready'' ConditionTrue 2] False None)
       [(ConditionTrue, ''a'', ''b''), (ConditionFalse, ''c'', ''d'')] testState
   \<and> updateConditionRun (notEarlierStep ''Ready'')
       (testController (pollAnswer ''succeeded'' 200) (deleteAnswer 200) None
          (testInstance None [token] [] False None)) ''Ready''
       (testInstance None [token] [testCondition ''Ready'' ConditionTrue 2] False None)
       [(ConditionTrue, ''a'', ''b''), (ConditionFalse, ''c'', ''d'')] testState"
proof -
  let ?c = "testController (pollAnswer ''succeeded'' 200) (deleteAnswer 200) None
       (testInstance None [token] [] False None)"
  let ?i = "testInstance None [token] [testCondition ''Ready'' ConditionTrue 2] False None"
  have k: "clockKeepsUp ?c" by (simp add: clockKeepsUp_def testController_def)
  have n: "notAhead ?c ?i testState"
    by (simp add: notAhead_def testController_def testInstance_def testCondition_def testState_def)
  from updateInstanceCondition_transition_time
    [of "''Ready''" ?c ?i "[(ConditionTrue, ''a'', ''b''), (ConditionFalse, ''c'', ''d'')]" testState]
    k n
  show ?thesis by blast
qed

text \<open>
  C7 as stated fails: on an Instance whose Ready condition is True since time 100,
  a call with status False at clock reading 50 submits the condition with
  transition time 50, earlier than the previous value.
\<close>

theorem updateInstanceCondition_transition_time_counterexample:
  "updateInstanceCondition
     (testController (pollAnswer ''succeeded'' 200) (deleteAnswer 200) None
        (testInstance None [token] [] False None))
     (testInstance None [token] [testCondition ''Ready'' ConditionTrue 100] False None)
     ''Ready'' ConditionFalse ''c'' ''d'' \<lparr>world = 50, trace = []\<rparr>
   = (None,
      \<lparr>world = 51,
       trace = [CallUpdateStatus ''ns''
                  (testInstance None [token]
                     [\<lparr>Type = ''Ready'', CondStatus = ConditionFalse, LastTransitionTime = 50,
                       Reason = ''c'', Message = ''d''\<rparr>] False None) None]\<rparr>)
   \<and> \<not> updateConditionRun (notEarlierStep ''Ready'')
       (testController (pollAnswer ''succeeded'' 200) (deleteAnswer 200) None
          (testInstance None [token] [] False None)) ''Ready''
       (testInstance None [token] [testCondition ''Ready'' ConditionTrue 100] False None)
       [(ConditionFalse, ''c'', ''d'')] \<lparr>world = 50, trace = []\<rparr>"
  by (simp add: test_defs effect_defs notEarlierStep_def findCondition_def)

text \<open>
  C8 fails on the code: on an Instance whose condition list is not empty and
  holds no condition of the given type, the loop finds nothing to replace and
  nothing is appended, so the object submitted to the store is the Instance
  itself and carries no condition of that type. Here the list holds one condition
  of type Other and the call sets Ready.
\<close>

theorem updateInstanceCondition_missing_type:
  "updateInstanceCondition
     (testController (pollAnswer ''succeeded'' 200) (deleteAnswer 200) None
        (testInstance None [token] [testCondition ''Other'' ConditionTrue 2] False None))
     (testInstance None [token] [testCondition ''Other'' ConditionTrue 2] False None)
     ''Ready'' ConditionTrue ''ProvisionedSuccessfully'' ''done'' testState
   = (None,
      \<lparr>world = 11,
       trace = [CallUpdateStatus ''ns''
                  (testInstance None [token] [testCondition ''Other'' ConditionTrue 2] False None) None]\<rparr>)
   \<and> findCondition ''Ready''
        (testInstance None [token] [testCondition ''Other'' ConditionTrue 2] False None) = None"
  by (simp add: test_defs effect_defs findCondition_def)

section \<open>reconcileInstance: the checksum gate\<close>

text \<open>
  C3 (amended): for every Instance with no asynchronous operation in progress,
  a stored checksum equal to the checksum of its spec and no deletion timestamp,
  \<^verbatim>\<open>reconcileInstance\<close> returns nil and leaves the Instance, the outside world and
  the trace as they were: no broker call, no store write, conditions unchanged.
\<close>

theorem reconcileInstance_noop:
  assumes "\<not> AsyncOpInProgress (Status inst)"
    and "Checksum (Status inst) = Some (InstanceSpecChecksum c (Spec inst))"
    and "DeletionTimestamp inst = None"
  shows "reconcileInstance c inst s = (None, inst, s)"
  using assms by (simp add: reconcileInstance_def)

theorem reconcileInstance_noop_witness:
  "reconcileInstance (testController (pollAnswer ''succeeded'' 200) (deleteAnswer 200) None (testInstance None [] [] False None))
     (testInstance None [token] [] False (Some ''id-1'')) testState
   = (None, testInstance None [token] [] False (Some ''id-1''), testState)"
  using reconcileInstance_noop [of "testInstance None [token] [] False (Some ''id-1'')"
     "testController (pollAnswer ''succeeded'' 200) (deleteAnswer 200) None (testInstance None [] [] False None)" testState]
  by (simp add: testInstance_def testController_def)

text \<open>
  C3 as stated fails: with the same checksum and no deletion timestamp but an
  asynchronous operation in progress, the pass goes on to poll the broker.
\<close>

theorem reconcileInstance_noop_counterexample:
  "Checksum (Status (testInstance None [token] [] True (Some ''id-1'')))
     = Some (InstanceSpecChecksum
         (testController (pollAnswer ''in progress'' 200) (deleteAnswer 200) None (testInstance None [] [] False None))
         (Spec (testInstance None [token] [] True (Some ''id-1''))))
   \<and> DeletionTimestamp (testInstance None [token] [] True (Some ''id-1'')) = None
   \<and> issued testState (snd (snd (reconcileInstance
         (testController (pollAnswer ''in progress'' 200) (deleteAnswer 200) None (testInstance None [] [] False None))
         (testInstance None [token] [] True (Some ''id-1'')) testState)))
     = [CallPollServiceInstance ''broker'' ''id-1''
          \<lparr>PollServiceID = ''class-id'', PollPlanID = ''plan-id'', PollOperation = []\<rparr>
          (pollAnswer ''in progress'' 200)]"
  by (simp add: handler_defs issued_def testInstance_def testController_def testState_def pollAnswer_def
      lastOperationRequest_def testClass_def testPlan_def StatusGone_def)

text \<open>
  C1 fails on the code: for an Instance with an asynchronous operation in
  progress, a deletion timestamp and the finalizer token, \<^verbatim>\<open>reconcileInstance\<close>
  enters \<^verbatim>\<open>reconcileInstanceDelete\<close>, which does not look at the flag once a
  checksum or the flag itself rules out the never-provisioned case, and issues
  the broker's delete call.
\<close>

theorem reconcileInstance_delete_while_async:
  "AsyncOpInProgress (Status (testInstance (Some 5) [token] [] True (Some ''id-1'')))
   \<and> filter isBrokerCall (issued testState (snd (snd (reconcileInstance
        (testController (pollAnswer ''in progress'' 200) (deleteAnswer 202) None
           (testInstance (Some 5) [token] [] True (Some ''id-1'')))
        (testInstance (Some 5) [token] [] True (Some ''id-1'')) testState))))
     = [CallDeleteServiceInstance ''broker'' ''id-1''
          \<lparr>DeleteServiceID = ''class-id'', DeletePlanID = ''plan-id'', DeleteAcceptsIncomplete = True\<rparr>
          (deleteAnswer 202)]"
  by (simp add: reconcileInstance_def reconcileInstanceDelete_def Let_def test_defs code_defs effect_defs)

section \<open>pollInstance\<close>

lemma PollServiceInstance_eq:
  "brokerPoll c b i req (world s) = (a, w) \<Longrightarrow>
   PollServiceInstance c b i req s = (a, s\<lparr>world := w, trace := trace s @ [CallPollServiceInstance b i req a]\<rparr>)"
  by (simp add: PollServiceInstance_def perform_def)

text \<open>
  C5 (amended): when the poll answers without error with state "in progress",
  and the answer is not HTTP 410 on an Instance with a deletion timestamp,
  \<^verbatim>\<open>pollInstance\<close> returns a non-nil error, leaves the Instance as it was (the
  flag stays set) and issues no call besides the poll (no store write, so no
  finalizer removal).
\<close>

theorem pollInstance_in_progress:
  assumes "brokerPoll c brokerName (ExternalID (Spec inst)) (lastOperationRequest cls plan inst) (world s)
             = ((resp, rc, None), w)"
    and "\<not> (rc = StatusGone \<and> DeletionTimestamp inst \<noteq> None)"
    and "State resp = ''in progress''"
  shows "pollInstance c cls plan brokerName inst s =
     (Some (Error (Sprintf c fmtNotCompleted
        [FmtS (Namespace inst), FmtS (Name inst)])),
      inst,
      s\<lparr>world := w,
        trace := trace s @ [CallPollServiceInstance brokerName (ExternalID (Spec inst))
                             (lastOperationRequest cls plan inst) (resp, rc, None)]\<rparr>)"
  using assms by (auto simp: pollInstance_def PollServiceInstance_def perform_def Let_def)

theorem pollInstance_in_progress_witness:
  "pollInstance
     (testController (pollAnswer ''in progress'' 200) (deleteAnswer 200) None
        (testInstance (Some 5) [token] [] True (Some ''id-1'')))
     testClass testPlan ''broker'' (testInstance (Some 5) [token] [] True (Some ''id-1'')) testState
   = (Some (Error fmtNotCompleted),
      testInstance (Some 5) [token] [] True (Some ''id-1''),
      \<lparr>world = 11,
       trace = [CallPollServiceInstance ''broker'' ''id-1''
                  \<lparr>PollServiceID = ''class-id'', PollPlanID = ''plan-id'', PollOperation = []\<rparr>
                  (pollAnswer ''in progress'' 200)]\<rparr>)"
  using pollInstance_in_progress [of
      "testController (pollAnswer ''in progress'' 200) (deleteAnswer 200) None
        (testInstance (Some 5) [token] [] True (Some ''id-1''))"
      "''broker''" "testInstance (Some 5) [token] [] True (Some ''id-1'')" testClass testPlan testState
      "\<lparr>State = ''in progress'', Description = ''d''\<rparr>" 200 11]
  by (simp add: test_defs code_defs)

text \<open>
  C5 as stated fails: a poll answered HTTP 410 with state "in progress" on an
  Instance being deleted takes the gone path: nil is returned, the flag is
  cleared and the finalizer write is issued.
\<close>

theorem pollInstance_in_progress_counterexample:
  "fst (pollInstance
        (testController (pollAnswer ''in progress'' 410) (deleteAnswer 200) None
           (testInstance (Some 5) [token] [] True (Some ''id-1'')))
        testClass testPlan ''broker'' (testInstance (Some 5) [token] [] True (Some ''id-1'')) testState) = None
   \<and> \<not> AsyncOpInProgress (Status (fst (snd (pollInstance
        (testController (pollAnswer ''in progress'' 410) (deleteAnswer 200) None
           (testInstance (Some 5) [token] [] True (Some ''id-1'')))
        testClass testPlan ''broker'' (testInstance (Some 5) [token] [] True (Some ''id-1'')) testState))))
   \<and> filter (removesFinalizer token) (issued testState (snd (snd (pollInstance
        (testController (pollAnswer ''in progress'' 410) (deleteAnswer 200) None
           (testInstance (Some 5) [token] [] True (Some ''id-1'')))
        testClass testPlan ''broker'' (testInstance (Some 5) [token] [] True (Some ''id-1'')) testState))))
     = [CallUpdateStatus ''ns'' (testInstance (Some 5) [] [] True (Some ''id-1'')) None]"
  by (simp add: pollInstance_def Let_def test_defs code_defs effect_defs)

text \<open>
  C4 (amended): when the poll answers without error with state "failed", and the
  answer is not HTTP 410 on an Instance with a deletion timestamp,
  \<^verbatim>\<open>pollInstance\<close> returns nil, clears the flag on the Instance, and issues after
  the poll exactly one store write and one event. The write is the condition
  update of Ready on the Instance with the flag cleared, with status Unknown and
  the deprovision-error reason when a deletion timestamp is set, and status False
  and the provision-error reason otherwise; the written object carries that
  Ready condition whenever the Instance had a Ready condition or no condition.
\<close>

theorem pollInstance_failed:
  assumes poll: "brokerPoll c brokerName (ExternalID (Spec inst)) (lastOperationRequest cls plan inst) (world s)
             = ((resp, rc, None), w)"
    and gone: "\<not> (rc = StatusGone \<and> DeletionTimestamp inst \<noteq> None)"
    and failed: "State resp = ''failed''"
  shows "\<exists>obj msg uerr ev s'.
      pollInstance c cls plan brokerName inst s = (None, setAsyncOpInProgress False inst, s')
    \<and> issued s s' =
        [CallPollServiceInstance brokerName (ExternalID (Spec inst))
           (lastOperationRequest cls plan inst) (resp, rc, None),
         CallUpdateStatus (Namespace inst) obj uerr,
         CallEvent EventTypeWarning (errorDeprovisionCalledReason (names c)) ev]
    \<and> obj = conditionUpdate (setAsyncOpInProgress False inst) (setAsyncOpInProgress False inst)
              (InstanceConditionReady (names c))
              (if DeletionTimestamp inst \<noteq> None then ConditionUnknown else ConditionFalse)
              (if DeletionTimestamp inst \<noteq> None then errorDeprovisionCalledReason (names c)
               else errorProvisionCalledReason (names c))
              msg (Now c w)
    \<and> \<not> AsyncOpInProgress (Status obj)
    \<and> (upsertable (InstanceConditionReady (names c)) inst \<longrightarrow>
         carriesCondition obj (InstanceConditionReady (names c))
           (if DeletionTimestamp inst \<noteq> None then ConditionUnknown else ConditionFalse)
           (if DeletionTimestamp inst \<noteq> None then errorDeprovisionCalledReason (names c)
            else errorProvisionCalledReason (names c)))"
proof -
  let ?i1 = "setAsyncOpInProgress False inst"
  let ?s1 = "s\<lparr>world := w, trace := trace s @ [CallPollServiceInstance brokerName (ExternalID (Spec inst))
           (lastOperationRequest cls plan inst) (resp, rc, None)]\<rparr>"
  let ?cond = "if DeletionTimestamp inst \<noteq> None then ConditionUnknown else ConditionFalse"
  let ?reason = "if DeletionTimestamp inst \<noteq> None then errorDeprovisionCalledReason (names c)
               else errorProvisionCalledReason (names c)"
  let ?desc = "Sprintf c fmtPollFailed
                     [FmtS (Namespace inst), FmtS (Name inst),
                      FmtS (ClassName cls), FmtS brokerName, FmtS (Description resp)]"
  let ?msg = "if DeletionTimestamp inst \<noteq> None then prefixDeprovisionFailed @ ?desc
                          else prefixProvisionFailed @ ?desc"
  let ?obj = "conditionUpdate ?i1 ?i1 (InstanceConditionReady (names c)) ?cond ?reason ?msg (Now c w)"
  obtain uerr w2 where u: "updateInstanceCondition c ?i1 (InstanceConditionReady (names c)) ?cond ?reason ?msg ?s1
      = (uerr, ?s1\<lparr>world := w2, trace := trace ?s1 @ [CallUpdateStatus (Namespace inst) ?obj uerr]\<rparr>)"
    using updateInstanceCondition_run [of c ?i1 "InstanceConditionReady (names c)" ?cond ?reason ?msg ?s1]
    by (auto simp: setAsyncOpInProgress_def)
  have run0: "pollInstance c cls plan brokerName inst s =
      (None, ?i1, Event EventTypeWarning (errorDeprovisionCalledReason (names c)) ?desc
         (snd (updateInstanceCondition c ?i1 (InstanceConditionReady (names c)) ?cond ?reason ?msg ?s1)))"
    using gone failed
    by (auto simp: pollInstance_def PollServiceInstance_eq [OF poll] Let_def)
  have run: "pollInstance c cls plan brokerName inst s =
      (None, ?i1, Event EventTypeWarning (errorDeprovisionCalledReason (names c)) ?desc
         (?s1\<lparr>world := w2, trace := trace ?s1 @ [CallUpdateStatus (Namespace inst) ?obj uerr]\<rparr>))"
    unfolding run0 u by simp
  have flag: "\<not> AsyncOpInProgress (Status ?obj)"
    by (simp add: setAsyncOpInProgress_def)
  have carries: "upsertable (InstanceConditionReady (names c)) inst \<longrightarrow>
      carriesCondition ?obj (InstanceConditionReady (names c)) ?cond ?reason"
    using carriesCondition_conditionUpdate [of "InstanceConditionReady (names c)" ?i1] by simp
  show ?thesis
    apply (rule exI [of _ ?obj], rule exI [of _ ?msg], rule exI [of _ uerr], rule exI [of _ ?desc])
    apply (rule exI)
    apply (intro conjI)
        apply (rule run)
       apply (simp add: issued_def Event_def emit_def)
      apply (rule refl)
     apply (rule flag)
    apply (rule carries)
    done
qed

theorem pollInstance_failed_witness:
  "upsertable ''Ready'' (testInstance (Some 5) [token] [] True (Some ''id-1''))
   \<and> fst (pollInstance
        (testController (pollAnswer ''failed'' 200) (deleteAnswer 200) None
           (testInstance (Some 5) [token] [] True (Some ''id-1'')))
        testClass testPlan ''broker'' (testInstance (Some 5) [token] [] True (Some ''id-1'')) testState) = None
   \<and> List.map_filter (readyWrite ''Ready'') (issued testState (snd (snd (pollInstance
        (testController (pollAnswer ''failed'' 200) (deleteAnswer 200) None
           (testInstance (Some 5) [token] [] True (Some ''id-1'')))
        testClass testPlan ''broker'' (testInstance (Some 5) [token] [] True (Some ''id-1'')) testState))))
     = [(ConditionUnknown, ''DeprovisionCallFailed'')]"
proof -
  let ?c = "testController (pollAnswer ''failed'' 200) (deleteAnswer 200) None
           (testInstance (Some 5) [token] [] True (Some ''id-1''))"
  let ?i = "testInstance (Some 5) [token] [] True (Some ''id-1'')"
  have h1: "brokerPoll ?c ''broker'' (ExternalID (Spec ?i)) (lastOperationRequest testClass testPlan ?i)
      (world testState) = ((\<lparr>State = ''failed'', Description = ''d''\<rparr>, 200, None), 11)"
    by (simp add: test_defs)
  have h2: "\<not> (200 = StatusGone \<and> DeletionTimestamp ?i \<noteq> None)"
    by (simp add: StatusGone_def)
  have h3: "State \<lparr>State = ''failed'', Description = ''d''\<rparr> = ''failed''" by simp
  have u: "upsertable ''Ready'' ?i" by (simp add: upsertable_def testInstance_def)
  have n: "InstanceConditionReady (names ?c) = ''Ready''"
    "errorDeprovisionCalledReason (names ?c) = ''DeprovisionCallFailed''"
    "DeletionTimestamp ?i = Some 5"
    by (simp_all add: test_defs)
  from pollInstance_failed [OF h1 h2 h3] u show ?thesis
    by (auto simp: n List.map_filter_def carriesCondition_def split: option.splits)
qed

text \<open>
  C4 as stated fails: a poll answered HTTP 410 with state "failed" on an Instance
  being deleted takes the gone path, and the Ready condition written is False
  with the deprovision-success reason.
\<close>

theorem pollInstance_failed_counterexample:
  "fst (pollInstance
        (testController (pollAnswer ''failed'' 410) (deleteAnswer 200) None
           (testInstance (Some 5) [token] [] True (Some ''id-1'')))
        testClass testPlan ''broker'' (testInstance (Some 5) [token] [] True (Some ''id-1'')) testState) = None
   \<and> List.map_filter (readyWrite ''Ready'') (issued testState (snd (snd (pollInstance
        (testController (pollAnswer ''failed'' 410) (deleteAnswer 200) None
           (testInstance (Some 5) [token] [] True (Some ''id-1'')))
        testClass testPlan ''broker'' (testInstance (Some 5) [token] [] True (Some ''id-1'')) testState))))
     = [(ConditionFalse, ''DeprovisionedSuccessfully'')]"
  by (simp add: pollInstance_def Let_def test_defs code_defs effect_defs List.map_filter_def findCondition_def)

text \<open>
  C6 (amended): when the poll answers without error with a state other than
  "in progress", "succeeded" and "failed", and the answer is not HTTP 410 on an
  Instance with a deletion timestamp, \<^verbatim>\<open>pollInstance\<close> returns a non-nil error
  that names the state (so the queue retries the key), leaves the Instance as it
  was and issues no call besides the poll: no condition is written and no event
  is recorded.
\<close>

theorem pollInstance_invalid_state:
  assumes "brokerPoll c brokerName (ExternalID (Spec inst)) (lastOperationRequest cls plan inst) (world s)
             = ((resp, rc, None), w)"
    and "\<not> (rc = StatusGone \<and> DeletionTimestamp inst \<noteq> None)"
    and "State resp \<noteq> ''in progress''"
    and "State resp \<noteq> ''succeeded''"
    and "State resp \<noteq> ''failed''"
  shows "pollInstance c cls plan brokerName inst s =
     (Some (Error (Sprintf c fmtInvalidState [FmtS (State resp)])),
      inst,
      s\<lparr>world := w,
        trace := trace s @ [CallPollServiceInstance brokerName (ExternalID (Spec inst))
                             (lastOperationRequest cls plan inst) (resp, rc, None)]\<rparr>)"
  using assms by (auto simp: pollInstance_def PollServiceInstance_def perform_def Let_def)

theorem pollInstance_invalid_state_witness:
  "pollInstance (testController (pollAnswer ''bogus'' 200) (deleteAnswer 200) None (testInstance None [] [] False None))
      testClass testPlan ''broker'' (testInstance None [token] [] True None) testState =
     (Some (Error fmtInvalidState),
      testInstance None [token] [] True None,
      \<lparr>world = 11,
       trace = [CallPollServiceInstance ''broker'' ''id-1''
                  \<lparr>PollServiceID = ''class-id'', PollPlanID = ''plan-id'', PollOperation = []\<rparr>
                  (pollAnswer ''bogus'' 200)]\<rparr>)"
  using pollInstance_invalid_state [of
      "testController (pollAnswer ''bogus'' 200) (deleteAnswer 200) None (testInstance None [] [] False None)"
      "''broker''" "testInstance None [token] [] True None" testClass testPlan testState
      "\<lparr>State = ''bogus'', Description = ''d''\<rparr>" 200 11]
  by (simp add: testController_def testInstance_def testState_def pollAnswer_def StatusGone_def
      lastOperationRequest_def testClass_def testPlan_def)

text \<open>
  C6 as stated fails: on the state "bogus" the handler returns an error, which is
  the signal to requeue.
\<close>

theorem pollInstance_invalid_state_counterexample:
  "fst (pollInstance (testController (pollAnswer ''bogus'' 200) (deleteAnswer 200) None (testInstance None [] [] False None))
      testClass testPlan ''broker'' (testInstance None [token] [] True None) testState)
   = Some (Error fmtInvalidState)"
  by (simp add: Let_def pollInstance_def PollServiceInstance_def perform_def testController_def
      testInstance_def testState_def pollAnswer_def StatusGone_def)

section \<open>reconcileInstanceDelete: a failure response\<close>

lemma DeleteServiceInstance_eq:
  "brokerDelete c b i req (world s) = (a, w) \<Longrightarrow>
   DeleteServiceInstance c b i req s = (a, s\<lparr>world := w, trace := trace s @ [CallDeleteServiceInstance b i req a]\<rparr>)"
  by (simp add: DeleteServiceInstance_def perform_def)

lemma resolve_eq:
  "getServiceClassPlanAndBroker c obj (world s) = (r, w) \<Longrightarrow>
   resolveServiceClassPlanAndBroker c obj s = (r, s\<lparr>world := w\<rparr>)"
  by (simp add: resolveServiceClassPlanAndBroker_def)

text \<open>
  C10 (amended): on the deletion path (deletion timestamp, finalizer token, not
  the never-provisioned case), when the references resolve and the delete call
  returns no error and a status that is neither 202 nor 200,
  \<^verbatim>\<open>reconcileInstanceDelete\<close> issues after the delete call one store write, the
  condition update of Ready to False with the deprovision-error reason, whose
  object has the Instance's finalizer list; it returns what that write returned:
  nil, followed by a warning event, when the store accepted it, and the store's
  error otherwise.
\<close>

theorem reconcileInstanceDelete_failure_response:
  assumes del: "DeletionTimestamp inst \<noteq> None"
    and tok: "FinalizerServiceCatalog (names c) \<in> set (Finalizers inst)"
    and prov: "AsyncOpInProgress (Status inst) \<or> Checksum (Status inst) \<noteq> None"
    and res: "getServiceClassPlanAndBroker c inst (world s) = (Inr (cls, plan, broker), w1)"
    and answer: "brokerDelete c broker (ExternalID (Spec inst)) (deleteRequest cls plan) w1
                   = ((resp, code, None), w2)"
    and code: "code \<noteq> StatusAccepted" "code \<noteq> StatusOK"
  shows "\<exists>obj uerr msg ev s'.
      reconcileInstanceDelete c inst s = (uerr, inst, s')
    \<and> issued s s' =
        [CallDeleteServiceInstance broker (ExternalID (Spec inst)) (deleteRequest cls plan)
           (resp, code, None),
         CallUpdateStatus (Namespace inst) obj uerr]
        @ (if uerr = None
           then [CallEvent EventTypeWarning (errorDeprovisionCalledReason (names c)) ev]
           else [])
    \<and> obj = conditionUpdate inst inst (InstanceConditionReady (names c)) ConditionFalse
              (errorDeprovisionCalledReason (names c)) msg (Now c w2)
    \<and> Finalizers obj = Finalizers inst
    \<and> (upsertable (InstanceConditionReady (names c)) inst \<longrightarrow>
         carriesCondition obj (InstanceConditionReady (names c)) ConditionFalse
           (errorDeprovisionCalledReason (names c)))"
proof -
  let ?s1 = "s\<lparr>world := w1\<rparr>"
  let ?s2 = "s\<lparr>world := w2, trace := trace s @ [CallDeleteServiceInstance broker (ExternalID (Spec inst))
      (deleteRequest cls plan) (resp, code, None)]\<rparr>"
  let ?msg = "Sprintf c fmtDeprovisionCallFailed []"
  let ?ev = "Sprintf c ?msg []"
  let ?obj = "conditionUpdate inst inst (InstanceConditionReady (names c)) ConditionFalse
              (errorDeprovisionCalledReason (names c)) ?msg (Now c w2)"
  have d: "DeleteServiceInstance c broker (ExternalID (Spec inst)) (deleteRequest cls plan) ?s1
      = ((resp, code, None), ?s2)"
    using DeleteServiceInstance_eq [of c broker "ExternalID (Spec inst)" "deleteRequest cls plan" ?s1]
      answer by simp
  obtain uerr w3 where u: "updateInstanceCondition c inst (InstanceConditionReady (names c))
      ConditionFalse (errorDeprovisionCalledReason (names c)) ?msg ?s2
      = (uerr, ?s2\<lparr>world := w3, trace := trace ?s2 @ [CallUpdateStatus (Namespace inst) ?obj uerr]\<rparr>)"
    using updateInstanceCondition_run [of c inst "InstanceConditionReady (names c)" ConditionFalse
        "errorDeprovisionCalledReason (names c)" ?msg ?s2]
    by auto
  have run: "reconcileInstanceDelete c inst s =
      (uerr, inst,
       if uerr = None
       then Event EventTypeWarning (errorDeprovisionCalledReason (names c)) ?ev
              (?s2\<lparr>world := w3, trace := trace ?s2 @ [CallUpdateStatus (Namespace inst) ?obj uerr]\<rparr>)
       else ?s2\<lparr>world := w3, trace := trace ?s2 @ [CallUpdateStatus (Namespace inst) ?obj uerr]\<rparr>)"
    using del tok prov code
    by (cases uerr) (auto simp: reconcileInstanceDelete_def resolve_eq [OF res] d u Let_def)
  have carries: "upsertable (InstanceConditionReady (names c)) inst \<longrightarrow>
      carriesCondition ?obj (InstanceConditionReady (names c)) ConditionFalse
        (errorDeprovisionCalledReason (names c))"
    using carriesCondition_conditionUpdate [of "InstanceConditionReady (names c)" inst] by simp
  show ?thesis
    apply (rule exI [of _ ?obj], rule exI [of _ uerr], rule exI [of _ ?msg], rule exI [of _ ?ev])
    apply (rule exI)
    apply (intro conjI)
        apply (rule run)
       apply (simp add: issued_def Event_def emit_def)
      apply (rule refl)
     apply simp
    apply (rule carries)
    done
qed

theorem reconcileInstanceDelete_failure_response_witness:
  "upsertable ''Ready'' (testInstance (Some 5) [token] [] False (Some ''id-1''))
   \<and> fst (reconcileInstanceDelete
        (testController (pollAnswer ''succeeded'' 200) (deleteAnswer 500) None
           (testInstance (Some 5) [token] [] False (Some ''id-1'')))
        (testInstance (Some 5) [token] [] False (Some ''id-1'')) testState) = None
   \<and> filter (removesFinalizer token) (issued testState (snd (snd (reconcileInstanceDelete
        (testController (pollAnswer ''succeeded'' 200) (deleteAnswer 500) None
           (testInstance (Some 5) [token] [] False (Some ''id-1'')))
        (testInstance (Some 5) [token] [] False (Some ''id-1'')) testState)))) = []
   \<and> List.map_filter (readyWrite ''Ready'') (issued testState (snd (snd (reconcileInstanceDelete
        (testController (pollAnswer ''succeeded'' 200) (deleteAnswer 500) None
           (testInstance (Some 5) [token] [] False (Some ''id-1'')))
        (testInstance (Some 5) [token] [] False (Some ''id-1'')) testState))))
     = [(ConditionFalse, ''DeprovisionCallFailed'')]"
proof -
  let ?i = "testInstance (Some 5) [token] [] False (Some ''id-1'')"
  let ?c = "testController (pollAnswer ''succeeded'' 200) (deleteAnswer 500) None ?i"
  have h1: "DeletionTimestamp ?i \<noteq> None" by (simp add: testInstance_def)
  have h2: "FinalizerServiceCatalog (names ?c) \<in> set (Finalizers ?i)" by (simp add: test_defs)
  have h3: "AsyncOpInProgress (Status ?i) \<or> Checksum (Status ?i) \<noteq> None"
    by (simp add: testInstance_def)
  have h4: "getServiceClassPlanAndBroker ?c ?i (world testState) = (Inr (testClass, testPlan, ''broker''), 10)"
    by (simp add: testController_def testState_def)
  have h5: "brokerDelete ?c ''broker'' (ExternalID (Spec ?i)) (deleteRequest testClass testPlan) 10
      = ((\<lparr>DeleteOperation = []\<rparr>, 500, None), 11)"
    by (simp add: testController_def deleteAnswer_def)
  have h6: "500 \<noteq> StatusAccepted" "500 \<noteq> StatusOK" by (simp_all add: code_defs)
  have u: "upsertable ''Ready'' ?i" by (simp add: upsertable_def testInstance_def)
  have n: "InstanceConditionReady (names ?c) = ''Ready''"
    "errorDeprovisionCalledReason (names ?c) = ''DeprovisionCallFailed''"
    "storeUpdateStatus ?c = (\<lambda>ns obj w. (None, Suc w))"
    "Finalizers ?i = [token]"
    by (simp_all add: test_defs)
  from reconcileInstanceDelete_failure_response [OF h1 h2 h3 h4 h5 h6]
  obtain obj uerr msg ev s' where r: "reconcileInstanceDelete ?c ?i testState = (uerr, ?i, s')"
    and i: "issued testState s' =
        [CallDeleteServiceInstance ''broker'' (ExternalID (Spec ?i)) (deleteRequest testClass testPlan)
           (\<lparr>DeleteOperation = []\<rparr>, 500, None),
         CallUpdateStatus (Namespace ?i) obj uerr]
        @ (if uerr = None
           then [CallEvent EventTypeWarning (errorDeprovisionCalledReason (names ?c)) ev]
           else [])"
    and f: "Finalizers obj = Finalizers ?i"
    and c: "upsertable (InstanceConditionReady (names ?c)) ?i \<longrightarrow>
         carriesCondition obj (InstanceConditionReady (names ?c)) ConditionFalse
           (errorDeprovisionCalledReason (names ?c))"
    by blast
  have e: "uerr = None"
    using r by (simp add: reconcileInstanceDelete_def Let_def test_defs code_defs effect_defs split: prod.splits)
  show ?thesis
    using u c f by (auto simp: r i e n List.map_filter_def carriesCondition_def split: option.splits)
qed

text \<open>
  C10 as stated fails: when the store rejects the condition write, the handler
  returns that error, and the key is requeued.
\<close>

theorem reconcileInstanceDelete_failure_response_counterexample:
  "fst (reconcileInstanceDelete
        (testController (pollAnswer ''succeeded'' 200) (deleteAnswer 500) (Some (Error ''conflict''))
           (testInstance (Some 5) [token] [] False (Some ''id-1'')))
        (testInstance (Some 5) [token] [] False (Some ''id-1'')) testState)
   = Some (Error ''conflict'')"
  by (simp add: reconcileInstanceDelete_def Let_def test_defs code_defs effect_defs)

section \<open>updateInstanceFinalizers\<close>

text \<open>
  C9 fails on the code: \<^verbatim>\<open>updateInstanceFinalizers\<close> reads the Instance from the
  store, but the list it writes is its parameter, which every caller computes
  from the handler's own copy. Here the store holds a second token, added after
  the handler's copy was read; the object written has an empty finalizer list.
\<close>

theorem updateInstanceFinalizers_overwrites_store_list:
  "Finalizers (testInstance (Some 5) [token, ''other''] [] False None) = [token, ''other'']
   \<and> reconcileInstanceDelete
        (testController (pollAnswer ''succeeded'' 200) (deleteAnswer 200) None
           (testInstance (Some 5) [token, ''other''] [] False None))
        (testInstance (Some 5) [token] [] False None) testState
     = (None, testInstance (Some 5) [token] [] False None,
        \<lparr>world = 12,
         trace = [CallGetInstance ''ns'' ''db'' (testInstance (Some 5) [token, ''other''] [] False None, None),
                  CallUpdateStatus ''ns'' (testInstance (Some 5) [] [] False None) None]\<rparr>)"
  by (simp add: reconcileInstanceDelete_def Let_def test_defs code_defs effect_defs)

section \<open>What the handlers add to the trace\<close>

lemma set_sets_List [simp]: "finite S \<Longrightarrow> set (sets_List S) = S"
  by (simp add: sets_List_def)

lemma trace_Event [simp]: "trace (Event ty r m s) = trace s @ [CallEvent ty r m]"
  by (simp add: Event_def emit_def)

lemma trace_pollingQueueAdd [simp]: "trace (pollingQueueAdd key s) = trace s @ [CallPollingQueueAdd key]"
  by (simp add: pollingQueueAdd_def emit_def)








lemma Finalizers_setters [simp]:
  "Finalizers (setAsyncOpInProgress f obj) = Finalizers obj"
  "Finalizers (setLastOperation operation obj) = Finalizers obj"
  "Finalizers (setDashboardURL url obj) = Finalizers obj"
  by (simp_all add: setAsyncOpInProgress_def setLastOperation_def setDashboardURL_def)

lemma DeletionTimestamp_setters [simp]:
  "DeletionTimestamp (setAsyncOpInProgress f obj) = DeletionTimestamp obj"
  by (simp_all add: setAsyncOpInProgress_def)

lemma issued_appended [simp]: "trace s' = trace s @ xs \<Longrightarrow> issued s s' = xs"
  by (simp add: issued_def)


lemma issued_self [simp]: "issued s s = []"
  by (simp add: issued_def)


section \<open>Removal of the finalizer token\<close>










end
